theory Spec2Isabelle
  imports Complex_Main "HOL-Library.AList" "HOL-Library.Char_ord" "HOL-Library.List_Lexorder"
    "HOL-Library.Product_Lexorder"
begin

section \<open>Python values and exceptions\<close>

text \<open>
  The values a parsed YAML document holds (\<open>Dict[str, Any]\<close> in the source): a dict is
  an association list in insertion order, read with \<open>map_of\<close> and written with
  \<open>AList.update\<close> (replace in place, or append a new key), as a Python dict behaves.
  A finite float is the rational it denotes; \<open>PInf\<close> is \<open>float("inf")\<close>.
\<close>

datatype pyval =
    PNone
  | PBool bool
  | PInt int
  | PFloat rat
  | PInf
  | PStr string
  | PList "pyval list"
  | PDict "(string \<times> pyval) list"

text \<open>\<open>PipelineMetrics\<close> of core/pipeline.py. Clock readings are integers (ticks).\<close>

record PipelineMetrics =
  pipeline_name :: string
  start_time :: int
  end_time :: "int option"
  status :: string
  records_read :: nat
  records_written :: nat
  records_failed :: nat
  transformations_applied :: nat
  quality_checks_passed :: nat
  quality_checks_failed :: nat
  error_message :: "string option"
  duration_seconds :: int

text \<open>
  The exception classes of the repository; \<open>OtherError\<close> is any other subclass of
  \<open>Exception\<close> (a Spark analysis error, a \<open>TypeError\<close>, ...), with its message.
\<close>

datatype exn =
    ConfigurationError string
  | TransformationError string
  | ValidationError string
  | DataWriterError string
  | PipelineExecutionError string "PipelineMetrics option"
  | OtherError string

text \<open>\<open>str(e)\<close>: the message the exception was built with.\<close>

fun str_exn :: "exn \<Rightarrow> string" where
  "str_exn (ConfigurationError m) = m"
| "str_exn (TransformationError m) = m"
| "str_exn (ValidationError m) = m"
| "str_exn (DataWriterError m) = m"
| "str_exn (PipelineExecutionError m _) = m"
| "str_exn (OtherError m) = m"

section \<open>core/config.py\<close>

record SourceConfig =
  src_type :: string
  src_path :: "string option"
  src_catalog :: "string option"
  src_schema :: "string option"
  src_table :: "string option"
  src_connection_string :: "string option"
  src_query :: "string option"
  src_options :: "(string \<times> pyval) list"

record TargetConfig =
  catalog :: string
  schema :: string
  table :: string
  mode :: string
  format :: string
  partition_by :: "string list"
  options :: "(string \<times> pyval) list"
  merge_keys :: "string list"
  scd_columns :: "string list"

definition get_full_table_name :: "TargetConfig \<Rightarrow> string" where
  "get_full_table_name self = catalog self @ ''.'' @ schema self @ ''.'' @ table self"

record TransformationConfig =
  trans_type :: string
  trans_params :: "(string \<times> pyval) list"
  trans_enabled :: bool

record QualityConfig =
  quality_enabled :: bool
  fail_on_error :: bool
  checks :: "(string \<times> pyval) list list"

record ProcessingConfig =
  proc_mode :: string
  watermark_column :: "string option"
  watermark_delay :: string
  batch_size :: "int option"
  parallelism :: "int option"
  checkpoint_location :: "string option"
  trigger_interval :: "string option"
  proc_options :: "(string \<times> pyval) list"

record PipelineConfig =
  name :: string
  layer :: string
  description :: string
  version :: string
  owner :: string
  tags :: "(string \<times> string) list"
  source :: "SourceConfig option"
  sources :: "SourceConfig list"
  target :: "TargetConfig option"
  processing :: ProcessingConfig
  transformations :: "TransformationConfig list"
  quality :: QualityConfig
  parameters :: "(string \<times> pyval) list"


subsection \<open>Variable substitution\<close>










subsection \<open>Deep merge\<close>

text \<open>
  \<open>_merge_configs\<close>: the first argument is \<open>result\<close>, which starts as a copy of \<open>base\<close>;
  the recursion runs the loop over \<open>override.items()\<close>.
\<close>

fun merge_configs :: "(string \<times> pyval) list \<Rightarrow> (string \<times> pyval) list \<Rightarrow> (string \<times> pyval) list" where
  "merge_configs result [] = result"
| "merge_configs result ((key, PDict ov) # rest) =
     (case map_of result key of
        Some (PDict bv) \<Rightarrow>
          merge_configs (AList.update key (PDict (merge_configs bv ov)) result) rest
      | _ \<Rightarrow> merge_configs (AList.update key (PDict ov) result) rest)"
| "merge_configs result ((key, v) # rest) = merge_configs (AList.update key v result) rest"

section \<open>What the code takes from Python and Spark\<close>

text \<open>
  Truthiness, type names and the numeric comparisons of Python on the values above.
  A number is \<open>Some q\<close> (finite) or \<open>None\<close> (\<open>+inf\<close>); \<open>bool\<close> is a subclass of \<open>int\<close>.
\<close>

fun py_truthy :: "pyval \<Rightarrow> bool" where
  "py_truthy PNone = False"
| "py_truthy (PBool b) = b"
| "py_truthy (PInt i) = (i \<noteq> 0)"
| "py_truthy (PFloat q) = (q \<noteq> 0)"
| "py_truthy PInf = True"
| "py_truthy (PStr s) = (s \<noteq> [])"
| "py_truthy (PList xs) = (xs \<noteq> [])"
| "py_truthy (PDict kvs) = (kvs \<noteq> [])"

fun type_name :: "pyval \<Rightarrow> string" where
  "type_name PNone = ''NoneType''"
| "type_name (PBool b) = ''bool''"
| "type_name (PInt i) = ''int''"
| "type_name (PFloat q) = ''float''"
| "type_name PInf = ''float''"
| "type_name (PStr s) = ''str''"
| "type_name (PList xs) = ''list''"
| "type_name (PDict kvs) = ''dict''"

fun as_number :: "pyval \<Rightarrow> rat option option" where
  "as_number (PBool b) = Some (Some (if b then 1 else 0))"
| "as_number (PInt i) = Some (Some (of_int i))"
| "as_number (PFloat q) = Some (Some q)"
| "as_number PInf = Some None"
| "as_number _ = None"

fun num_le :: "rat option \<Rightarrow> rat option \<Rightarrow> bool" where
  "num_le _ None = True"
| "num_le None (Some _) = False"
| "num_le (Some a) (Some b) = (a \<le> b)"

definition not_supported :: "string \<Rightarrow> pyval \<Rightarrow> pyval \<Rightarrow> exn" where
  "not_supported opr a b =
     OtherError ([CHR 0x27] @ opr @ [CHR 0x27] @ '' not supported between instances of ''
        @ [CHR 0x27] @ type_name a @ [CHR 0x27] @ '' and ''
        @ [CHR 0x27] @ type_name b @ [CHR 0x27])"

definition py_le :: "pyval \<Rightarrow> pyval \<Rightarrow> exn + bool" where
  "py_le a b =
     (case (as_number a, as_number b) of
        (Some x, Some y) \<Rightarrow> Inr (num_le x y)
      | _ \<Rightarrow> Inl (not_supported ''<='' a b))"

definition py_gt :: "pyval \<Rightarrow> pyval \<Rightarrow> exn + bool" where
  "py_gt a b =
     (case (as_number a, as_number b) of
        (Some x, Some y) \<Rightarrow> Inr (\<not> num_le x y)
      | _ \<Rightarrow> Inl (not_supported ''>'' a b))"

text \<open>\<open>d.get(key, default)\<close>.\<close>

definition dict_get :: "(string \<times> pyval) list \<Rightarrow> string \<Rightarrow> pyval \<Rightarrow> pyval" where
  "dict_get d key dflt = (case map_of d key of Some v \<Rightarrow> v | None \<Rightarrow> dflt)"

text \<open>
  The Column expressions the code builds with \<open>pyspark.sql.functions\<close> and hands to the
  DataFrame. Their evaluation belongs to Spark.
\<close>

datatype column_expr =
    Col pyval
  | Lit pyval
  | Expr pyval
  | CurrentTimestamp
  | IsNull column_expr
  | Not column_expr
  | And column_expr column_expr
  | Ge column_expr pyval
  | Le column_expr pyval
  | Eq column_expr pyval
  | EqCol column_expr column_expr
  | RLike column_expr pyval
  | IsIn column_expr pyval
  | Cast column_expr string

text \<open>
  The actions \<open>run_quality_checks\<close> runs on its DataFrame, each with the exception it may
  raise, and Python's \<open>str()\<close> as the f-strings apply it.
  \<open>filter_count df c\<close> is \<open>df.filter(c).count()\<close>; \<open>duplicate_groups df column\<close> is
  \<open>df.groupBy(column).count().filter(F.col("count") > 1).count()\<close>.
\<close>

record 'df frame_actions =
  str_of :: "pyval \<Rightarrow> string"
  count :: "'df \<Rightarrow> exn + nat"
  filter_count :: "'df \<Rightarrow> column_expr \<Rightarrow> exn + nat"
  duplicate_groups :: "'df \<Rightarrow> pyval \<Rightarrow> exn + nat"

section \<open>utils/validators.py\<close>

record check_result =
  cr_name :: pyval
  cr_type :: pyval
  cr_column :: pyval
  cr_passed :: bool
  cr_failed_count :: nat
  cr_message :: string

record 'df results =
  res_passed :: nat
  res_failed :: nat
  res_checks :: "check_result list"
  validated_df :: 'df

text \<open>
  The branches that count rows share their last three assignments; \<open>counted\<close> is those
  assignments, made after the count has returned.
\<close>

definition counted :: "check_result \<Rightarrow> nat \<Rightarrow> string \<Rightarrow> check_result" where
  "counted check_result failed_count msg =
     check_result\<lparr>cr_passed := (failed_count = 0), cr_failed_count := failed_count,
                  cr_message := msg\<rparr>"

text \<open>
  The \<open>if\<close>/\<open>elif\<close> chain on \<open>check_type\<close> inside the \<open>try\<close>. Every branch assigns to
  \<open>check_result\<close> only after its last call that can raise, so an exception leaves
  \<open>check_result\<close> as it was.
\<close>

definition dispatch ::
  "'df frame_actions \<Rightarrow> 'df \<Rightarrow> nat \<Rightarrow> (string \<times> pyval) list \<Rightarrow> check_result \<Rightarrow> exn + check_result" where
  "dispatch P df total_rows check check_result =
     (let check_type = dict_get check ''type'' PNone;
          column = dict_get check ''column'' PNone;
          num = (\<lambda>n. str_of P (PInt (int n)))
      in
      if check_type = PStr ''not_null'' then
        (case filter_count P df (IsNull (Col column)) of
           Inl e \<Rightarrow> Inl e
         | Inr failed_count \<Rightarrow>
             Inr (counted check_result failed_count (num failed_count @ '' null values found'')))
      else if check_type = PStr ''unique'' then
        (case duplicate_groups P df column of
           Inl e \<Rightarrow> Inl e
         | Inr duplicate_count \<Rightarrow>
             Inr (counted check_result duplicate_count
                    (num duplicate_count @ '' duplicate groups found'')))
      else if check_type = PStr ''range'' then
        (let min_val = dict_get check ''min'' PNone;
             max_val = dict_get check ''max'' PNone;
             condition = Lit (PBool True);
             condition = (if min_val \<noteq> PNone then And condition (Ge (Col column) min_val)
                          else condition);
             condition = (if max_val \<noteq> PNone then And condition (Le (Col column) max_val)
                          else condition)
         in case filter_count P df (Not condition) of
              Inl e \<Rightarrow> Inl e
            | Inr failed_count \<Rightarrow>
                Inr (counted check_result failed_count
                       (num failed_count @ '' values out of range ['' @ str_of P min_val
                          @ '', '' @ str_of P max_val @ '']'')))
      else if check_type = PStr ''regex'' then
        (case filter_count P df (Not (RLike (Col column) (dict_get check ''pattern'' PNone))) of
           Inl e \<Rightarrow> Inl e
         | Inr failed_count \<Rightarrow>
             Inr (counted check_result failed_count
                    (num failed_count @ '' values don'' @ [CHR 0x27] @ ''t match pattern'')))
      else if check_type = PStr ''values'' then
        (case filter_count P df (Not (IsIn (Col column) (dict_get check ''allowed'' (PList [])))) of
           Inl e \<Rightarrow> Inl e
         | Inr failed_count \<Rightarrow>
             Inr (counted check_result failed_count
                    (num failed_count @ '' values not in allowed list'')))
      else if check_type = PStr ''custom'' then
        (case filter_count P df (Not (Expr (dict_get check ''expression'' PNone))) of
           Inl e \<Rightarrow> Inl e
         | Inr failed_count \<Rightarrow>
             Inr (counted check_result failed_count
                    (num failed_count @ '' rows failed custom check'')))
      else if check_type = PStr ''row_count'' then
        (let min_rows = dict_get check ''min'' (PInt 0);
             max_rows = dict_get check ''max'' PInf;
             total = PInt (int total_rows)
         in case py_le min_rows total of
              Inl e \<Rightarrow> Inl e
            | Inr lower \<Rightarrow>
                (case (if lower then py_le total max_rows else Inr False) of
                   Inl e \<Rightarrow> Inl e
                 | Inr ok \<Rightarrow>
                     Inr (check_result\<lparr>cr_passed := ok,
                            cr_failed_count := (if ok then 0 else 1),
                            cr_message := ''Row count: '' @ num total_rows @ '' (expected: ''
                              @ str_of P min_rows @ ''-'' @ str_of P max_rows @ '')''\<rparr>)))
      else
        Inr (check_result\<lparr>cr_message := ''Unknown check type: '' @ str_of P check_type,
               cr_failed_count := 0\<rparr>))"

text \<open>
  "Apply threshold if specified": the comparison \<open>threshold > 0\<close> raises on a value
  that is no number, the division raises when \<open>total_rows\<close> is zero.
\<close>

definition apply_threshold ::
  "nat \<Rightarrow> (string \<times> pyval) list \<Rightarrow> check_result \<Rightarrow> exn + check_result" where
  "apply_threshold total_rows check check_result =
     (let threshold = dict_get check ''threshold'' (PInt 0)
      in case py_gt threshold (PInt 0) of
           Inl e \<Rightarrow> Inl e
         | Inr positive \<Rightarrow>
             if positive \<and> cr_failed_count check_result > 0 then
               (if total_rows = 0 then Inl (OtherError ''division by zero'')
                else
                  (let failure_rate = (of_nat (cr_failed_count check_result) :: rat)
                                        / of_nat total_rows
                   in Inr (check_result\<lparr>cr_passed :=
                             (case as_number threshold of
                                Some t \<Rightarrow> num_le (Some failure_rate) t
                              | None \<Rightarrow> False)\<rparr>)))
             else Inr check_result)"

text \<open>The \<open>except Exception\<close> handler: it keeps what the \<open>try\<close> had assigned so far.\<close>

definition check_error :: "check_result \<Rightarrow> exn \<Rightarrow> check_result" where
  "check_error check_result e =
     check_result\<lparr>cr_message := ''Check error: '' @ str_exn e, cr_passed := False\<rparr>"

text \<open>The dict \<open>check_result\<close> as each iteration creates it.\<close>

definition initial_result :: "'df frame_actions \<Rightarrow> (string \<times> pyval) list \<Rightarrow> check_result" where
  "initial_result P check =
     (let check_type = dict_get check ''type'' PNone;
          column = dict_get check ''column'' PNone;
          check_name = dict_get check ''name''
                         (PStr (str_of P check_type @ ''_'' @ str_of P column))
      in \<lparr>cr_name = check_name, cr_type = check_type, cr_column = column,
          cr_passed = False, cr_failed_count = 0, cr_message = []\<rparr>)"

text \<open>
  The \<open>try\<close> block: \<open>check_result\<close> as the block leaves it, and the exception if it
  raised one.
\<close>

definition try_block ::
  "'df frame_actions \<Rightarrow> 'df \<Rightarrow> nat \<Rightarrow> (string \<times> pyval) list \<Rightarrow> check_result
     \<Rightarrow> check_result \<times> exn option" where
  "try_block P df total_rows check check_result =
     (case dispatch P df total_rows check check_result of
        Inl e \<Rightarrow> (check_result, Some e)
      | Inr check_result' \<Rightarrow>
          (case apply_threshold total_rows check check_result' of
             Inl e \<Rightarrow> (check_result', Some e)
           | Inr check_result'' \<Rightarrow> (check_result'', None)))"

text \<open>One iteration of the loop, up to the end of the \<open>try\<close> statement.\<close>

definition evaluate_check ::
  "'df frame_actions \<Rightarrow> 'df \<Rightarrow> nat \<Rightarrow> (string \<times> pyval) list \<Rightarrow> check_result" where
  "evaluate_check P df total_rows check =
     (case try_block P df total_rows check (initial_result P check) of
        (check_result, Some e) \<Rightarrow> check_error check_result e
      | (check_result, None) \<Rightarrow> check_result)"

text \<open>The loop over \<open>checks\<close>; \<open>results\<close> is the dictionary built so far.\<close>

fun check_loop ::
  "'df frame_actions \<Rightarrow> 'df \<Rightarrow> nat \<Rightarrow> bool \<Rightarrow> 'df results \<Rightarrow> (string \<times> pyval) list list
     \<Rightarrow> exn + 'df results" where
  "check_loop P df total_rows foe results [] = Inr results"
| "check_loop P df total_rows foe results (check # rest) =
     (let check_result = evaluate_check P df total_rows check
      in if cr_passed check_result then
           check_loop P df total_rows foe
             (results\<lparr>res_passed := res_passed results + 1,
                      res_checks := res_checks results @ [check_result]\<rparr>) rest
         else if foe then
           Inl (ValidationError (''Quality check failed: '' @ str_of P (cr_name check_result)
                  @ '' - '' @ cr_message check_result))
         else
           check_loop P df total_rows foe
             (results\<lparr>res_failed := res_failed results + 1,
                      res_checks := res_checks results @ [check_result]\<rparr>) rest)"

definition run_quality_checks ::
  "'df frame_actions \<Rightarrow> 'df \<Rightarrow> (string \<times> pyval) list list \<Rightarrow> bool \<Rightarrow> exn + 'df results" where
  "run_quality_checks P df chks foe =
     (case count P df of
        Inl e \<Rightarrow> Inl e
      | Inr total_rows \<Rightarrow>
          check_loop P df total_rows foe
            \<lparr>res_passed = 0, res_failed = 0, res_checks = [], validated_df = df\<rparr> chks)"

section \<open>Programs with a state and exceptions\<close>

text \<open>
  A method that calls Spark changes the tables and may raise: it is a function from the
  state to an outcome (\<open>Inl\<close> the exception raised) and the state it leaves.
\<close>

type_synonym ('a, 's) prog = "'s \<Rightarrow> (exn + 'a) \<times> 's"

definition ret :: "'a \<Rightarrow> ('a, 's) prog" where
  "ret a s = (Inr a, s)"

definition throw :: "exn \<Rightarrow> ('a, 's) prog" where
  "throw e s = (Inl e, s)"

definition and_then :: "('a, 's) prog \<Rightarrow> ('a \<Rightarrow> ('b, 's) prog) \<Rightarrow> ('b, 's) prog" where
  "and_then m f s = (case m s of (Inl e, s') \<Rightarrow> (Inl e, s') | (Inr a, s') \<Rightarrow> f a s')"

definition try_except :: "('a, 's) prog \<Rightarrow> (exn \<Rightarrow> ('a, 's) prog) \<Rightarrow> ('a, 's) prog" where
  "try_except m h s = (case m s of (Inl e, s') \<Rightarrow> h e s' | (Inr a, s') \<Rightarrow> (Inr a, s'))"

text \<open>\<open>sep.join(parts)\<close> on a list of strings.\<close>

fun join :: "string \<Rightarrow> string list \<Rightarrow> string" where
  "join sep [] = []"
| "join sep [x] = x"
| "join sep (x # y # ys) = x @ sep @ join sep (y # ys)"

text \<open>
  \<open>sep.join(v)\<close> on a value read from an options dict: a list or dict must hold strings
  only (a dict is iterated by key), a string is joined character by character, anything
  else is not iterable.
\<close>

fun str_items :: "(pyval \<Rightarrow> string) \<Rightarrow> nat \<Rightarrow> pyval list \<Rightarrow> exn + string list" where
  "str_items fmt i [] = Inr []"
| "str_items fmt i (PStr s # xs) =
     (case str_items fmt (Suc i) xs of Inl e \<Rightarrow> Inl e | Inr ys \<Rightarrow> Inr (s # ys))"
| "str_items fmt i (x # xs) =
     Inl (OtherError (''sequence item '' @ fmt (PInt (int i)) @ '': expected str instance, ''
            @ type_name x @ '' found''))"

fun py_join :: "(pyval \<Rightarrow> string) \<Rightarrow> string \<Rightarrow> pyval \<Rightarrow> exn + string" where
  "py_join fmt sep (PList xs) =
     (case str_items fmt 0 xs of Inl e \<Rightarrow> Inl e | Inr ys \<Rightarrow> Inr (join sep ys))"
| "py_join fmt sep (PDict kvs) = Inr (join sep (map fst kvs))"
| "py_join fmt sep (PStr s) = Inr (join sep (map (\<lambda>c. [c]) s))"
| "py_join fmt sep v = Inl (OtherError ''can only join an iterable'')"

text \<open>\<open>str.lower()\<close> on ASCII letters, which is all the mode names are made of.\<close>

definition lower_char :: "char \<Rightarrow> char" where
  "lower_char c =
     (case map_of (zip ''ABCDEFGHIJKLMNOPQRSTUVWXYZ'' ''abcdefghijklmnopqrstuvwxyz'') c of
        Some l \<Rightarrow> l
      | None \<Rightarrow> c)"

definition lower :: "string \<Rightarrow> string" where
  "lower s = map lower_char s"

section \<open>The storage and compute collaborator\<close>

text \<open>
  What a \<open>DataFrameWriter\<close> has been told when \<open>saveAsTable\<close> is called; the partition
  columns are \<open>None\<close> when \<open>partitionBy\<close> was not called.
\<close>

record save_spec =
  sv_format :: string
  sv_mode :: string
  sv_options :: "(string \<times> pyval) list"
  sv_partition_by :: "string list option"
  sv_table :: string

text \<open>
  What a Delta merge builder has been told when \<open>execute\<close> is called. A value of a
  \<open>set\<close>/\<open>values\<close> dict is SQL text or a Column; a clause that was not added is \<open>None\<close>.
\<close>

datatype set_value = SqlText string | ColumnValue column_expr

record merge_spec =
  mg_table :: string
  mg_condition :: string
  mg_matched_update :: "(string option \<times> (pyval \<times> set_value) list) option"
  mg_not_matched_insert :: "(pyval \<times> set_value) list option"

text \<open>
  The calls the writer makes on the Spark session, Delta and DataFrames, over the state
  \<open>'st\<close> of the storage. A DataFrame \<open>'df\<close> is a value; counting it reads the storage.
\<close>

record ('df, 'st) spark =
  sp_str :: "pyval \<Rightarrow> string"
  sp_sql :: "string \<Rightarrow> (unit, 'st) prog"
  sp_tableExists :: "string \<Rightarrow> (bool, 'st) prog"
  sp_table :: "string \<Rightarrow> ('df, 'st) prog"
  sp_columns :: "'df \<Rightarrow> string list"
  sp_count :: "'df \<Rightarrow> (nat, 'st) prog"
  sp_withColumn :: "'df \<Rightarrow> pyval \<Rightarrow> column_expr \<Rightarrow> ('df, 'st) prog"
  sp_filter :: "'df \<Rightarrow> column_expr \<Rightarrow> ('df, 'st) prog"
  sp_join :: "'df \<Rightarrow> 'df \<Rightarrow> column_expr list \<Rightarrow> string \<Rightarrow> ('df, 'st) prog"
  sp_saveAsTable :: "save_spec \<Rightarrow> 'df \<Rightarrow> (unit, 'st) prog"
  sp_merge_execute :: "merge_spec \<Rightarrow> 'df \<Rightarrow> (unit, 'st) prog"

section \<open>io/writer.py\<close>

text \<open>
  \<open>write\<close> receives the \<open>TargetConfig\<close> by reference. The state of the writer holds that
  object next to the storage, so that an assignment to one of its attributes is seen by
  the caller; a method's parameter \<open>target\<close> is the object in the state.
  Imports inside the methods are taken to succeed.
\<close>

record 'st writer_state =
  target_obj :: TargetConfig
  storage :: 'st

definition on_storage :: "('a, 'st) prog \<Rightarrow> ('a, 'st writer_state) prog" where
  "on_storage m s = (case m (storage s) of (r, st') \<Rightarrow> (r, s\<lparr>storage := st'\<rparr>))"

definition get_target :: "(TargetConfig, 'st writer_state) prog" where
  "get_target s = (Inr (target_obj s), s)"

definition set_target_mode :: "string \<Rightarrow> (unit, 'st writer_state) prog" where
  "set_target_mode m s = (Inr (), s\<lparr>target_obj := (target_obj s)\<lparr>mode := m\<rparr>\<rparr>)"

text \<open>\<open>DatabricksContext.create_schema_if_not_exists\<close> and \<open>table_exists\<close> (core/context.py).\<close>

definition create_schema_if_not_exists :: "('df, 'st) spark \<Rightarrow> string \<Rightarrow> string \<Rightarrow> (unit, 'st) prog" where
  "create_schema_if_not_exists P cat sch =
     sp_sql P (''CREATE SCHEMA IF NOT EXISTS '' @ cat @ ''.'' @ sch)"

definition table_exists :: "('df, 'st) spark \<Rightarrow> string \<Rightarrow> string \<Rightarrow> string \<Rightarrow> (bool, 'st) prog" where
  "table_exists P cat sch tbl =
     try_except (sp_tableExists P (cat @ ''.'' @ sch @ ''.'' @ tbl)) (\<lambda>e. ret False)"

definition ensure_schema_exists :: "('df, 'st) spark \<Rightarrow> (unit, 'st writer_state) prog" where
  "ensure_schema_exists P =
     and_then get_target (\<lambda>target.
       on_storage (create_schema_if_not_exists P (catalog target) (schema target)))"

definition optimize_table :: "('df, 'st) spark \<Rightarrow> (unit, 'st writer_state) prog" where
  "optimize_table P =
     and_then get_target (\<lambda>target.
       let optimize = dict_get (options target) ''optimize'' (PBool False);
           z_order_by = dict_get (options target) ''z_order_by'' (PList [])
       in if py_truthy optimize then
            (let table_name = get_full_table_name target
             in if py_truthy z_order_by then
                  (case py_join (sp_str P) '', '' z_order_by of
                     Inl e \<Rightarrow> throw e
                   | Inr z_order_cols \<Rightarrow>
                       on_storage (sp_sql P (''OPTIMIZE '' @ table_name @ '' ZORDER BY (''
                                              @ z_order_cols @ '')'')))
                else on_storage (sp_sql P (''OPTIMIZE '' @ table_name)))
          else ret ())"

definition write_overwrite :: "('df, 'st) spark \<Rightarrow> 'df \<Rightarrow> (nat, 'st writer_state) prog" where
  "write_overwrite P df =
     and_then get_target (\<lambda>target.
       let table_name = get_full_table_name target
       in and_then (on_storage (sp_count P df)) (\<lambda>record_count.
          and_then (on_storage (sp_saveAsTable P
                      \<lparr>sv_format = format target, sv_mode = ''overwrite'',
                       sv_options = options target,
                       sv_partition_by =
                         (if partition_by target \<noteq> [] then Some (partition_by target) else None),
                       sv_table = table_name\<rparr> df)) (\<lambda>_.
          and_then (optimize_table P) (\<lambda>_.
          ret record_count))))"

definition write_append :: "('df, 'st) spark \<Rightarrow> 'df \<Rightarrow> (nat, 'st writer_state) prog" where
  "write_append P df =
     and_then get_target (\<lambda>target.
       let table_name = get_full_table_name target
       in and_then (on_storage (sp_count P df)) (\<lambda>record_count.
          and_then (on_storage (sp_saveAsTable P
                      \<lparr>sv_format = format target, sv_mode = ''append'',
                       sv_options = options target,
                       sv_partition_by =
                         (if partition_by target \<noteq> [] then Some (partition_by target) else None),
                       sv_table = table_name\<rparr> df)) (\<lambda>_.
          ret record_count)))"

text \<open>A dict comprehension \<open>{col: f"source.{col}" for col in cols}\<close>.\<close>

definition source_dict :: "string list \<Rightarrow> (pyval \<times> set_value) list" where
  "source_dict cols =
     foldl (\<lambda>d col. AList.update (PStr col) (SqlText (''source.'' @ col)) d) [] cols"

definition key_condition :: "string list \<Rightarrow> string" where
  "key_condition keys = join '' AND '' (map (\<lambda>key. ''target.'' @ key @ '' = source.'' @ key) keys)"

definition write_merge :: "('df, 'st) spark \<Rightarrow> 'df \<Rightarrow> (nat, 'st writer_state) prog" where
  "write_merge P df =
     and_then get_target (\<lambda>target.
       let table_name = get_full_table_name target
       in if merge_keys target = [] then
            throw (DataWriterError ''Merge mode requires merge_keys in configuration'')
          else
            and_then (on_storage (table_exists P (catalog target) (schema target) (table target)))
              (\<lambda>exists.
                 if \<not> exists then write_overwrite P df
                 else
                   (let merge_condition = key_condition (merge_keys target);
                        columns = filter (\<lambda>c. c \<notin> set (merge_keys target)) (sp_columns P df);
                        update_set = source_dict columns;
                        insert_values = source_dict (sp_columns P df)
                    in and_then (on_storage (sp_merge_execute P
                                   \<lparr>mg_table = table_name, mg_condition = merge_condition,
                                    mg_matched_update = Some (None, update_set),
                                    mg_not_matched_insert = Some insert_values\<rparr> df)) (\<lambda>_.
                       on_storage (sp_count P df)))))"

definition write_scd2 :: "('df, 'st) spark \<Rightarrow> 'df \<Rightarrow> (nat, 'st writer_state) prog" where
  "write_scd2 P df =
     and_then get_target (\<lambda>target.
       let table_name = get_full_table_name target
       in if merge_keys target = [] then
            throw (DataWriterError ''SCD2 mode requires merge_keys in configuration'')
          else
            (let effective_date_col =
                   dict_get (options target) ''effective_date_column'' (PStr ''effective_date'');
                 end_date_col = dict_get (options target) ''end_date_column'' (PStr ''end_date'');
                 current_flag_col =
                   dict_get (options target) ''current_flag_column'' (PStr ''is_current'')
             in and_then (on_storage (sp_withColumn P df effective_date_col CurrentTimestamp))
                  (\<lambda>df1.
                and_then (on_storage (sp_withColumn P df1 end_date_col
                                        (Cast (Lit PNone) ''timestamp''))) (\<lambda>df2.
                and_then (on_storage (sp_withColumn P df2 current_flag_col (Lit (PBool True))))
                  (\<lambda>source_df.
                and_then (on_storage
                            (table_exists P (catalog target) (schema target) (table target)))
                  (\<lambda>exists.
                  if \<not> exists then
                    and_then (set_target_mode ''overwrite'') (\<lambda>_. write_overwrite P source_df)
                  else
                    (let merge_condition = key_condition (merge_keys target)
                           @ '' AND target.'' @ sp_str P current_flag_col @ '' = true'';
                         compare_cols =
                           (if scd_columns target \<noteq> [] then scd_columns target
                            else filter (\<lambda>c. c \<notin> set (merge_keys target)) (sp_columns P df));
                         change_conditions =
                           join '' OR '' (map (\<lambda>col. ''target.'' @ col @ '' <> source.'' @ col)
                                            compare_cols)
                     in and_then (on_storage (sp_merge_execute P
                                    \<lparr>mg_table = table_name, mg_condition = merge_condition,
                                     mg_matched_update =
                                       Some (Some change_conditions,
                                             AList.update current_flag_col
                                               (ColumnValue (Lit (PBool False)))
                                               [(end_date_col, ColumnValue CurrentTimestamp)]),
                                     mg_not_matched_insert = None\<rparr> source_df)) (\<lambda>_.
                        and_then (on_storage (sp_table P table_name)) (\<lambda>tbl.
                        and_then (on_storage (sp_filter P tbl
                                    (Eq (Col current_flag_col) (PBool True)))) (\<lambda>existing_df.
                        and_then (on_storage (sp_join P source_df existing_df
                                    (map (\<lambda>k. EqCol (Col (PStr (''source.'' @ k)))
                                                     (Col (PStr (''existing.'' @ k))))
                                         (merge_keys target))
                                    ''left_anti'')) (\<lambda>new_records.
                        and_then (on_storage (sp_count P new_records)) (\<lambda>n.
                        and_then (if n > 0 then
                                    on_storage (sp_saveAsTable P
                                      \<lparr>sv_format = ''delta'', sv_mode = ''append'',
                                       sv_options = [], sv_partition_by = None,
                                       sv_table = table_name\<rparr> new_records)
                                  else ret ()) (\<lambda>_.
                        on_storage (sp_count P df))))))))))))))"

text \<open>\<open>DataWriter.write\<close> (\<open>write\<close> is a keyword of Isabelle).\<close>

definition writer_write :: "('df, 'st) spark \<Rightarrow> 'df \<Rightarrow> (nat, 'st writer_state) prog" where
  "writer_write P df =
     and_then get_target (\<lambda>target.
       let mode = lower (mode target)
       in try_except
            (and_then (ensure_schema_exists P) (\<lambda>_.
               if mode = ''overwrite'' then write_overwrite P df
               else if mode = ''append'' then write_append P df
               else if mode = ''merge'' then write_merge P df
               else if mode = ''scd2'' then write_scd2 P df
               else throw (DataWriterError (''Unknown write mode: '' @ mode))))
            (\<lambda>e. and_then get_target (\<lambda>target.
                    throw (DataWriterError (''Failed to write to '' @ get_full_table_name target
                             @ '': '' @ str_exn e)))))"

text \<open>A program keeps the target when no run of it changes the \<open>TargetConfig\<close> in the state.\<close>

definition keeps_target :: "('a, 'st writer_state) prog \<Rightarrow> bool" where
  "keeps_target m = (\<forall>s r s'. m s = (r, s') \<longrightarrow> target_obj s' = target_obj s)"

section \<open>core/pipeline.py\<close>




















section \<open>DataFrames with their rows\<close>

text \<open>
  Where a transformation is specified by the rows it gives, a DataFrame is its column
  names and its rows, each row holding one cell per column. The operations below are
  Spark's, on this representation; a column that cannot be resolved is Spark's analysis
  error.
\<close>

datatype cell = Null | BoolV bool | IntV int | StrV string

record frame =
  columns :: "string list"
  rows :: "cell list list"


definition cell_of :: "string list \<Rightarrow> cell list \<Rightarrow> string \<Rightarrow> cell" where
  "cell_of cols r c = (case map_of (zip cols r) c of Some v \<Rightarrow> v | None \<Rightarrow> Null)"

definition cannot_resolve :: "string \<Rightarrow> exn" where
  "cannot_resolve c = OtherError (''cannot resolve column '' @ c)"


text \<open>
  \<open>df.withColumn(name, ...)\<close> with the new cell of every row given: an existing column
  of that name is replaced, otherwise the column is added at the end.
\<close>

definition set_cell :: "string list \<Rightarrow> string \<Rightarrow> cell list \<Rightarrow> cell \<Rightarrow> cell list" where
  "set_cell cols nm r v =
     (if nm \<in> set cols then map (\<lambda>(c, x). if c = nm then v else x) (zip cols r) else r @ [v])"

definition with_values :: "frame \<Rightarrow> string \<Rightarrow> cell list \<Rightarrow> frame" where
  "with_values df nm vs =
     \<lparr>columns = (if nm \<in> set (columns df) then columns df else columns df @ [nm]),
      rows = map (\<lambda>(r, v). set_cell (columns df) nm r v) (zip (rows df) vs)\<rparr>"





subsection \<open>Windows\<close>








section \<open>transformations/common.py\<close>




subsection \<open>StandardizeStrings\<close>










section \<open>Sample inputs and collaborators\<close>





text \<open>\<open>TargetConfig(catalog="main", schema="silver", table=..., mode=..., merge_keys=...)\<close>.\<close>

definition new_TargetConfig :: "string \<Rightarrow> string \<Rightarrow> string list \<Rightarrow> TargetConfig" where
  "new_TargetConfig tbl md keys =
     \<lparr>catalog = ''main'', schema = ''silver'', table = tbl, mode = md, format = ''delta'',
      partition_by = [], options = [], merge_keys = keys, scd_columns = []\<rparr>"

text \<open>\<open>str()\<close> on the values the samples format: decimal digits for a natural number.\<close>

function show_nat :: "nat \<Rightarrow> string" where
  "show_nat n = (if n < 10 then [char_of (48 + n)] else show_nat (n div 10) @ [char_of (48 + n mod 10)])"
  by pat_completeness auto
termination
  by (relation "measure id") auto

fun sample_str :: "pyval \<Rightarrow> string" where
  "sample_str PNone = ''None''"
| "sample_str (PBool b) = (if b then ''True'' else ''False'')"
| "sample_str (PInt i) = (if i < 0 then ''-'' @ show_nat (nat (- i)) else show_nat (nat i))"
| "sample_str (PStr s) = s"
| "sample_str PInf = ''inf''"
| "sample_str _ = ''?''"

text \<open>
  DataFrame actions on a frame with its rows: the row count, and the null count of a
  column; any other filter is refused, as Spark refuses an expression it cannot analyse.
\<close>

fun sample_filter_count :: "frame \<Rightarrow> column_expr \<Rightarrow> exn + nat" where
  "sample_filter_count df (IsNull (Col (PStr c))) =
     (if c \<in> set (columns df)
      then Inr (length (filter (\<lambda>r. cell_of (columns df) r c = Null) (rows df)))
      else Inl (cannot_resolve c))"
| "sample_filter_count df e = Inl (OtherError ''cannot analyse'')"

definition sample_actions :: "frame frame_actions" where
  "sample_actions =
     \<lparr>str_of = sample_str, count = (\<lambda>df. Inr (length (rows df))),
      filter_count = sample_filter_count,
      duplicate_groups = (\<lambda>df c. Inl (OtherError ''cannot analyse''))\<rparr>"


definition people :: frame where
  "people = \<lparr>columns = [''id'', ''name''],
             rows = [[IntV 1, StrV ''  Ada ''], [IntV 2, Null], [IntV 3, StrV ''BOB'']]\<rparr>"

text \<open>
  A storage that is the list of the names of its tables: saving a frame adds the name,
  a merge needs the table, any SQL statement succeeds.
\<close>

definition sample_spark :: "(frame, string list) spark" where
  "sample_spark =
     \<lparr>sp_str = sample_str,
      sp_sql = (\<lambda>q. ret ()),
      sp_tableExists = (\<lambda>nm st. (Inr (nm \<in> set st), st)),
      sp_table = (\<lambda>nm. ret \<lparr>columns = [], rows = []\<rparr>),
      sp_columns = columns,
      sp_count = (\<lambda>df. ret (length (rows df))),
      sp_withColumn = (\<lambda>df nm e. ret (with_values df (sample_str nm) (map (\<lambda>r. Null) (rows df)))),
      sp_filter = (\<lambda>df e. ret df),
      sp_join = (\<lambda>a b on how. ret a),
      sp_saveAsTable = (\<lambda>spec df st. (Inr (), sv_table spec # st)),
      sp_merge_execute = (\<lambda>spec df st.
         if mg_table spec \<in> set st then (Inr (), st)
         else (Inl (OtherError ''not a Delta table''), st))\<rparr>"





section \<open>Configuration: deep merge, construction, substitution\<close>

subsection \<open>Deep merge\<close>

lemma merge_step:
  "\<exists>v'. merge_configs result ((key, v) # rest) = merge_configs (AList.update key v' result) rest
     \<and> v' = (case v of
                PDict ov \<Rightarrow>
                  (case map_of result key of Some (PDict bv) \<Rightarrow> PDict (merge_configs bv ov) | _ \<Rightarrow> v)
              | _ \<Rightarrow> v)"
  by (cases v; simp split: option.splits pyval.splits)

lemma merge_configs_lookup:
  "distinct (map fst override) \<Longrightarrow>
   map_of (merge_configs result override) k =
     (case map_of override k of
        None \<Rightarrow> map_of result k
      | Some (PDict ov) \<Rightarrow>
          (case map_of result k of
             Some (PDict bv) \<Rightarrow> Some (PDict (merge_configs bv ov))
           | _ \<Rightarrow> Some (PDict ov))
      | Some v \<Rightarrow> Some v)"
proof (induction override arbitrary: result)
  case Nil
  show ?case by simp
next
  case (Cons kv rest)
  obtain key v where kv: "kv = (key, v)" by (cases kv)
  from Cons.prems kv have d: "distinct (map fst rest)" and nk: "key \<notin> fst ` set rest" by auto
  from nk have nm: "map_of rest key = None" by (simp add: map_of_eq_None_iff)
  from merge_step [of result key v rest] obtain v' where
    st: "merge_configs result ((key, v) # rest) = merge_configs (AList.update key v' result) rest"
    and v': "v' = (case v of
                     PDict ov \<Rightarrow>
                       (case map_of result key of
                          Some (PDict bv) \<Rightarrow> PDict (merge_configs bv ov) | _ \<Rightarrow> v)
                   | _ \<Rightarrow> v)"
    by blast
  show ?case
  proof (cases "k = key")
    case True
    with Cons.IH [OF d, of "AList.update key v' result"] st kv nm v' show ?thesis
      by (simp add: update_conv' split: pyval.splits option.splits)
  next
    case False
    then have eq: "map_of (AList.update key v' result) k = map_of result k"
      by (simp add: update_conv')
    from False have eq2: "map_of (kv # rest) k = map_of rest k" using kv by simp
    show ?thesis
      unfolding kv st eq2 [unfolded kv] using Cons.IH [OF d, of "AList.update key v' result"]
      unfolding eq .
  qed
qed

text \<open>
  C6. \<open>_merge_configs\<close> is a right-biased deep merge. For an override whose keys are
  distinct (as the keys of a dict are), the merged dict holds at a key of the override
  the recursive merge when both sides hold a dict there and the override's value
  otherwise, and at any other key what the base holds. On the two examples of the
  specification it gives \<open>{a: {x: 9, y: 2}}\<close> and \<open>{a: [3]}\<close>: a list is replaced whole.
\<close>

theorem merge_configs_right_biased:
  "(distinct (map fst override) \<longrightarrow>
      map_of (merge_configs base override) k =
        (case map_of override k of
           None \<Rightarrow> map_of base k
         | Some (PDict ov) \<Rightarrow>
             (case map_of base k of
                Some (PDict bv) \<Rightarrow> Some (PDict (merge_configs bv ov))
              | _ \<Rightarrow> Some (PDict ov))
         | Some v \<Rightarrow> Some v))
   \<and> merge_configs [(''a'', PDict [(''x'', PInt 1), (''y'', PInt 2)])]
                    [(''a'', PDict [(''x'', PInt 9)])]
       = [(''a'', PDict [(''x'', PInt 9), (''y'', PInt 2)])]
   \<and> merge_configs [(''a'', PList [PInt 1, PInt 2])] [(''a'', PList [PInt 3])]
       = [(''a'', PList [PInt 3])]"
proof (intro conjI impI)
  assume "distinct (map fst override)"
  then show "map_of (merge_configs base override) k =
        (case map_of override k of
           None \<Rightarrow> map_of base k
         | Some (PDict ov) \<Rightarrow>
             (case map_of base k of
                Some (PDict bv) \<Rightarrow> Some (PDict (merge_configs bv ov))
              | _ \<Rightarrow> Some (PDict ov))
         | Some v \<Rightarrow> Some v)"
    by (rule merge_configs_lookup)
qed simp_all

theorem merge_configs_right_biased_witness:
  "distinct (map fst [(''a'', PDict [(''x'', PInt 9)]), (''b'', PList [PInt 3])])
   \<and> map_of (merge_configs [(''a'', PDict [(''x'', PInt 1), (''y'', PInt 2)]),
                              (''b'', PList [PInt 1, PInt 2]), (''c'', PInt 7)]
                             [(''a'', PDict [(''x'', PInt 9)]), (''b'', PList [PInt 3])]) ''a''
       = Some (PDict [(''x'', PInt 9), (''y'', PInt 2)])
   \<and> map_of (merge_configs [(''a'', PDict [(''x'', PInt 1), (''y'', PInt 2)]),
                              (''b'', PList [PInt 1, PInt 2]), (''c'', PInt 7)]
                             [(''a'', PDict [(''x'', PInt 9)]), (''b'', PList [PInt 3])]) ''b''
       = Some (PList [PInt 3])
   \<and> map_of (merge_configs [(''a'', PDict [(''x'', PInt 1), (''y'', PInt 2)]),
                              (''b'', PList [PInt 1, PInt 2]), (''c'', PInt 7)]
                             [(''a'', PDict [(''x'', PInt 9)]), (''b'', PList [PInt 3])]) ''c''
       = Some (PInt 7)"
proof -
  let ?base = "[(''a'', PDict [(''x'', PInt 1), (''y'', PInt 2)]),
                (''b'', PList [PInt 1, PInt 2]), (''c'', PInt 7)]"
  let ?over = "[(''a'', PDict [(''x'', PInt 9)]), (''b'', PList [PInt 3])]"
  have d: "distinct (map fst ?over)" by simp
  from merge_configs_right_biased [of ?over ?base "''a''"] d
  have a: "map_of (merge_configs ?base ?over) ''a''
             = Some (PDict (merge_configs [(''x'', PInt 1), (''y'', PInt 2)] [(''x'', PInt 9)]))"
    by simp
  from merge_configs_right_biased [of ?over ?base "''b''"] d
  have b: "map_of (merge_configs ?base ?over) ''b'' = Some (PList [PInt 3])"
    by simp
  from merge_configs_right_biased [of ?over ?base "''c''"] d
  have c: "map_of (merge_configs ?base ?over) ''c'' = Some (PInt 7)"
    by simp
  from a b c d show ?thesis by simp
qed

subsection \<open>Construction of a PipelineConfig\<close>




subsection \<open>Variable substitution\<close>











section \<open>Quality checks\<close>

lemma check_loop_all:
  "check_loop P df n False results chks =
     Inr (results\<lparr>res_passed := res_passed results
                       + length (filter cr_passed (map (evaluate_check P df n) chks)),
                  res_failed := res_failed results
                       + length (filter (\<lambda>r. \<not> cr_passed r) (map (evaluate_check P df n) chks)),
                  res_checks := res_checks results @ map (evaluate_check P df n) chks\<rparr>)"
  by (induction chks arbitrary: results) (simp_all add: Let_def)

lemma check_loop_all_pass:
  "list_all (\<lambda>c. cr_passed (evaluate_check P df n c)) chks \<Longrightarrow>
   check_loop P df n foe results chks =
     Inr (results\<lparr>res_passed := res_passed results + length chks,
                  res_checks := res_checks results @ map (evaluate_check P df n) chks\<rparr>)"
  by (induction chks arbitrary: results) (simp_all add: Let_def)

lemma check_loop_first_failure:
  "list_all (\<lambda>c. cr_passed (evaluate_check P df n c)) pre \<Longrightarrow>
   \<not> cr_passed (evaluate_check P df n check) \<Longrightarrow>
   check_loop P df n True results (pre @ check # rest) =
     Inl (ValidationError (''Quality check failed: ''
            @ str_of P (cr_name (evaluate_check P df n check))
            @ '' - '' @ cr_message (evaluate_check P df n check)))"
  by (induction pre arbitrary: results) (simp_all add: Let_def)

lemma check_loop_some_failure:
  "\<not> cr_passed (evaluate_check P df n check) \<Longrightarrow> check \<in> set chks \<Longrightarrow>
   \<exists>msg. check_loop P df n True results chks = Inl (ValidationError msg)"
  by (induction chks arbitrary: results) (auto simp: Let_def)

lemma unknown_type_dispatch:
  "dict_get check ''type'' PNone \<notin> PStr ` set [''not_null'', ''unique'', ''range'', ''regex'',
       ''values'', ''custom'', ''row_count''] \<Longrightarrow>
   dispatch P df n check cr =
     Inr (cr\<lparr>cr_message := ''Unknown check type: '' @ str_of P (dict_get check ''type'' PNone),
            cr_failed_count := 0\<rparr>)"
  by (simp add: dispatch_def Let_def)

lemma threshold_keeps_zero:
  "cr_failed_count cr = 0 \<Longrightarrow>
   apply_threshold n check cr =
     (case py_gt (dict_get check ''threshold'' (PInt 0)) (PInt 0) of
        Inl e \<Rightarrow> Inl e | Inr b \<Rightarrow> Inr cr)"
  by (simp add: apply_threshold_def Let_def split: sum.splits)

lemma unknown_type_evaluate:
  assumes "dict_get check ''type'' PNone \<notin> PStr ` set [''not_null'', ''unique'', ''range'',
       ''regex'', ''values'', ''custom'', ''row_count'']"
  shows "\<not> cr_passed (evaluate_check P df n check)"
    and "cr_failed_count (evaluate_check P df n check) = 0"
    and "as_number (dict_get check ''threshold'' (PInt 0)) \<noteq> None \<Longrightarrow>
         cr_message (evaluate_check P df n check)
           = ''Unknown check type: '' @ str_of P (dict_get check ''type'' PNone)"
  by (auto simp: evaluate_check_def try_block_def unknown_type_dispatch [OF assms]
        threshold_keeps_zero check_error_def initial_result_def Let_def py_gt_def
      split: sum.splits option.splits)

text \<open>
  C1, as the claim states it, fails: a check of the unknown type \<open>not_nul\<close> records no
  failing row and its diagnostic message, but \<open>passed\<close> keeps its initial \<open>False\<close>. The
  run counts it as failed, and with \<open>fail_on_error\<close> it raises.
\<close>

theorem unknown_check_type_counterexample:
  "run_quality_checks sample_actions people
       [[(''type'', PStr ''not_nul''), (''column'', PStr ''name'')]] False
     = Inr \<lparr>res_passed = 0, res_failed = 1,
            res_checks = [\<lparr>cr_name = PStr ''not_nul_name'', cr_type = PStr ''not_nul'',
                           cr_column = PStr ''name'', cr_passed = False, cr_failed_count = 0,
                           cr_message = ''Unknown check type: not_nul''\<rparr>],
            validated_df = people\<rparr>
   \<and> run_quality_checks sample_actions people
       [[(''type'', PStr ''not_nul''), (''column'', PStr ''name'')]] True
     = Inl (ValidationError ''Quality check failed: not_nul_name - Unknown check type: not_nul'')"
  by (simp add: run_quality_checks_def sample_actions_def people_def evaluate_check_def
        try_block_def dispatch_def apply_threshold_def initial_result_def dict_get_def
        py_gt_def Let_def)

text \<open>
  C1, amended. A check whose type is none of the seven records no failing row and is not
  passed; its message is the diagnostic one whenever its threshold is absent or a
  number. Without \<open>fail_on_error\<close> every list holding such a check returns with that
  check among the failed ones and not among the passed ones; with \<open>fail_on_error\<close> every
  such list ends in a \<open>ValidationError\<close>, which is this check's own when the checks
  before it passed.
\<close>

theorem unknown_check_type_fails:
  assumes "count P df = Inr n"
    and "dict_get check ''type'' PNone \<notin> PStr ` set [''not_null'', ''unique'', ''range'',
           ''regex'', ''values'', ''custom'', ''row_count'']"
  shows "\<not> cr_passed (evaluate_check P df n check)
     \<and> cr_failed_count (evaluate_check P df n check) = 0
     \<and> (as_number (dict_get check ''threshold'' (PInt 0)) \<noteq> None \<longrightarrow>
          cr_message (evaluate_check P df n check)
            = ''Unknown check type: '' @ str_of P (dict_get check ''type'' PNone))
     \<and> (\<exists>res. run_quality_checks P df (pre @ check # rest) False = Inr res
           \<and> res_failed res
               = Suc (length (filter (\<lambda>c. \<not> cr_passed (evaluate_check P df n c)) (pre @ rest)))
           \<and> res_passed res
               = length (filter (\<lambda>c. cr_passed (evaluate_check P df n c)) (pre @ rest))
           \<and> res_checks res = map (evaluate_check P df n) (pre @ check # rest))
     \<and> (\<exists>msg. run_quality_checks P df (pre @ check # rest) True = Inl (ValidationError msg))
     \<and> (list_all (\<lambda>c. cr_passed (evaluate_check P df n c)) pre \<longrightarrow>
          run_quality_checks P df (pre @ check # rest) True =
            Inl (ValidationError (''Quality check failed: ''
                   @ str_of P (cr_name (evaluate_check P df n check))
                   @ '' - '' @ cr_message (evaluate_check P df n check))))"
proof -
  note u = unknown_type_evaluate [OF assms(2), of P df n]
  have f: "\<not> cr_passed (evaluate_check P df n check)" by (rule u(1))
  have 4: "\<exists>res. run_quality_checks P df (pre @ check # rest) False = Inr res
           \<and> res_failed res
               = Suc (length (filter (\<lambda>c. \<not> cr_passed (evaluate_check P df n c)) (pre @ rest)))
           \<and> res_passed res
               = length (filter (\<lambda>c. cr_passed (evaluate_check P df n c)) (pre @ rest))
           \<and> res_checks res = map (evaluate_check P df n) (pre @ check # rest)"
    using assms(1) f by (simp add: run_quality_checks_def check_loop_all filter_map comp_def)
  have 5: "\<exists>msg. run_quality_checks P df (pre @ check # rest) True = Inl (ValidationError msg)"
    using assms(1) check_loop_some_failure [OF f, of "pre @ check # rest"]
    by (simp add: run_quality_checks_def)
  have 6: "list_all (\<lambda>c. cr_passed (evaluate_check P df n c)) pre \<longrightarrow>
          run_quality_checks P df (pre @ check # rest) True =
            Inl (ValidationError (''Quality check failed: ''
                   @ str_of P (cr_name (evaluate_check P df n check))
                   @ '' - '' @ cr_message (evaluate_check P df n check)))"
    using assms(1) check_loop_first_failure [OF _ f]
    by (simp add: run_quality_checks_def)
  from u 4 5 6 show ?thesis by blast
qed

theorem unknown_check_type_fails_witness:
  "count sample_actions people = Inr 3
   \<and> \<not> cr_passed (evaluate_check sample_actions people 3
                      [(''type'', PStr ''not_nul''), (''column'', PStr ''name'')])
   \<and> (\<exists>res. run_quality_checks sample_actions people
               [[(''type'', PStr ''not_null''), (''column'', PStr ''id'')],
                [(''type'', PStr ''not_nul''), (''column'', PStr ''name'')]] False = Inr res
          \<and> res_failed res = 1 \<and> res_passed res = 1)
   \<and> run_quality_checks sample_actions people
        [[(''type'', PStr ''not_null''), (''column'', PStr ''id'')],
         [(''type'', PStr ''not_nul''), (''column'', PStr ''name'')]] True
       = Inl (ValidationError ''Quality check failed: not_nul_name - Unknown check type: not_nul'')"
proof -
  let ?ok = "[(''type'', PStr ''not_null''), (''column'', PStr ''id'')]"
  let ?bad = "[(''type'', PStr ''not_nul''), (''column'', PStr ''name'')]"
  have c: "count sample_actions people = Inr 3"
    by (simp add: sample_actions_def people_def)
  have t: "dict_get ?bad ''type'' PNone \<notin> PStr ` set [''not_null'', ''unique'', ''range'',
             ''regex'', ''values'', ''custom'', ''row_count'']"
    and th: "as_number (dict_get ?bad ''threshold'' (PInt 0)) \<noteq> None"
    by (simp_all add: dict_get_def)
  have ok: "cr_passed (evaluate_check sample_actions people 3 ?ok)"
    by (simp add: sample_actions_def people_def evaluate_check_def try_block_def dispatch_def
          apply_threshold_def initial_result_def dict_get_def py_gt_def counted_def cell_of_def
          Let_def)
  then have pre: "list_all (\<lambda>c. cr_passed (evaluate_check sample_actions people 3 c)) [?ok]"
    by simp
  note T = unknown_check_type_fails [OF c t, of "[?ok]" "[]"]
  from T th have m: "cr_message (evaluate_check sample_actions people 3 ?bad)
                       = ''Unknown check type: not_nul''"
    by (simp add: sample_actions_def dict_get_def)
  have nm: "cr_name (evaluate_check sample_actions people 3 ?bad) = PStr ''not_nul_name''"
    by (simp add: sample_actions_def evaluate_check_def try_block_def dispatch_def
          apply_threshold_def initial_result_def dict_get_def py_gt_def Let_def)
  from T have 1: "\<not> cr_passed (evaluate_check sample_actions people 3 ?bad)"
    by blast
  from T ok have 2: "\<exists>res. run_quality_checks sample_actions people [?ok, ?bad] False = Inr res
          \<and> res_failed res = 1 \<and> res_passed res = 1"
    by auto
  from T pre have "run_quality_checks sample_actions people ([?ok] @ ?bad # []) True =
            Inl (ValidationError (''Quality check failed: ''
                   @ str_of sample_actions (cr_name (evaluate_check sample_actions people 3 ?bad))
                   @ '' - '' @ cr_message (evaluate_check sample_actions people 3 ?bad)))"
    by blast
  with m nm have 3: "run_quality_checks sample_actions people [?ok, ?bad] True
       = Inl (ValidationError ''Quality check failed: not_nul_name - Unknown check type: not_nul'')"
    by (simp add: sample_actions_def)
  from c 1 2 3 show ?thesis by blast
qed

text \<open>
  C7. An exception that the \<open>try\<close> block of a check raises is caught: the check is not
  passed and its message is the exception's, after \<open>Check error:\<close>. Without
  \<open>fail_on_error\<close> the run returns a result for every check of the list, in order, with
  the two counters adding up the passed and the failed ones. With \<open>fail_on_error\<close>, the
  first check that is not passed ends the run in a \<open>ValidationError\<close> with that check's
  name and message, whatever checks follow it; when all pass the run returns.
\<close>

theorem check_exceptions_isolated_and_escalated:
  assumes "count P df = Inr n"
  shows "(try_block P df n check (initial_result P check) = (cr, Some e) \<longrightarrow>
            evaluate_check P df n check
              = cr\<lparr>cr_message := ''Check error: '' @ str_exn e, cr_passed := False\<rparr>)
     \<and> run_quality_checks P df chks False =
         Inr \<lparr>res_passed = length (filter cr_passed (map (evaluate_check P df n) chks)),
              res_failed = length (filter (\<lambda>r. \<not> cr_passed r) (map (evaluate_check P df n) chks)),
              res_checks = map (evaluate_check P df n) chks,
              validated_df = df\<rparr>
     \<and> (list_all (\<lambda>c. cr_passed (evaluate_check P df n c)) pre
          \<and> \<not> cr_passed (evaluate_check P df n failing) \<longrightarrow>
          (\<forall>rest. run_quality_checks P df (pre @ failing # rest) True =
             Inl (ValidationError (''Quality check failed: ''
                    @ str_of P (cr_name (evaluate_check P df n failing))
                    @ '' - '' @ cr_message (evaluate_check P df n failing)))))
     \<and> (list_all (\<lambda>c. cr_passed (evaluate_check P df n c)) chks \<longrightarrow>
          run_quality_checks P df chks True =
            Inr \<lparr>res_passed = length chks, res_failed = 0,
                 res_checks = map (evaluate_check P df n) chks, validated_df = df\<rparr>)"
proof (intro conjI impI allI)
  assume "try_block P df n check (initial_result P check) = (cr, Some e)"
  then show "evaluate_check P df n check
               = cr\<lparr>cr_message := ''Check error: '' @ str_exn e, cr_passed := False\<rparr>"
    by (simp add: evaluate_check_def check_error_def)
next
  show "run_quality_checks P df chks False =
         Inr \<lparr>res_passed = length (filter cr_passed (map (evaluate_check P df n) chks)),
              res_failed = length (filter (\<lambda>r. \<not> cr_passed r) (map (evaluate_check P df n) chks)),
              res_checks = map (evaluate_check P df n) chks,
              validated_df = df\<rparr>"
    using assms by (simp add: run_quality_checks_def check_loop_all)
next
  fix rest
  assume "list_all (\<lambda>c. cr_passed (evaluate_check P df n c)) pre
          \<and> \<not> cr_passed (evaluate_check P df n failing)"
  then show "run_quality_checks P df (pre @ failing # rest) True =
             Inl (ValidationError (''Quality check failed: ''
                    @ str_of P (cr_name (evaluate_check P df n failing))
                    @ '' - '' @ cr_message (evaluate_check P df n failing)))"
    using assms by (simp add: run_quality_checks_def check_loop_first_failure)
next
  assume "list_all (\<lambda>c. cr_passed (evaluate_check P df n c)) chks"
  then show "run_quality_checks P df chks True =
            Inr \<lparr>res_passed = length chks, res_failed = 0,
                 res_checks = map (evaluate_check P df n) chks, validated_df = df\<rparr>"
    using assms by (simp add: run_quality_checks_def check_loop_all_pass)
qed

theorem check_exceptions_isolated_and_escalated_witness:
  "count sample_actions people = Inr 3
   \<and> evaluate_check sample_actions people 3
        [(''type'', PStr ''not_null''), (''column'', PStr ''email'')]
       = \<lparr>cr_name = PStr ''not_null_email'', cr_type = PStr ''not_null'',
          cr_column = PStr ''email'', cr_passed = False, cr_failed_count = 0,
          cr_message = ''Check error: cannot resolve column email''\<rparr>
   \<and> (\<exists>res. run_quality_checks sample_actions people
               [[(''type'', PStr ''not_null''), (''column'', PStr ''id'')],
                [(''type'', PStr ''not_null''), (''column'', PStr ''email'')],
                [(''type'', PStr ''not_null''), (''column'', PStr ''name'')]] False = Inr res
          \<and> res_passed res = 1 \<and> res_failed res = 2 \<and> length (res_checks res) = 3)
   \<and> run_quality_checks sample_actions people
        [[(''type'', PStr ''not_null''), (''column'', PStr ''id'')],
         [(''type'', PStr ''not_null''), (''column'', PStr ''email'')],
         [(''type'', PStr ''not_null''), (''column'', PStr ''name'')]] True
       = Inl (ValidationError
                ''Quality check failed: not_null_email - Check error: cannot resolve column email'')
   \<and> (\<exists>res. run_quality_checks sample_actions people
               [[(''type'', PStr ''not_null''), (''column'', PStr ''id'')]] True = Inr res
          \<and> res_passed res = 1 \<and> res_failed res = 0)"
proof -
  let ?id = "[(''type'', PStr ''not_null''), (''column'', PStr ''id'')]"
  let ?email = "[(''type'', PStr ''not_null''), (''column'', PStr ''email'')]"
  let ?name = "[(''type'', PStr ''not_null''), (''column'', PStr ''name'')]"
  let ?init = "\<lparr>cr_name = PStr ''not_null_email'', cr_type = PStr ''not_null'',
                 cr_column = PStr ''email'', cr_passed = False, cr_failed_count = 0,
                 cr_message = []\<rparr>"
  note defs = sample_actions_def people_def evaluate_check_def try_block_def dispatch_def
    apply_threshold_def initial_result_def dict_get_def py_gt_def counted_def cell_of_def
    cannot_resolve_def check_error_def Let_def
  have c: "count sample_actions people = Inr 3"
    by (simp add: sample_actions_def people_def)
  have tb: "try_block sample_actions people 3 ?email (initial_result sample_actions ?email)
              = (?init, Some (OtherError ''cannot resolve column email''))"
    by (simp add: defs)
  have ok: "cr_passed (evaluate_check sample_actions people 3 ?id)"
    by (simp add: defs)
  have nn: "\<not> cr_passed (evaluate_check sample_actions people 3 ?name)"
    by (simp add: defs)
  note T = check_exceptions_isolated_and_escalated [OF c]
  from T [of ?email ?init "OtherError ''cannot resolve column email''"] tb
  have 1: "evaluate_check sample_actions people 3 ?email
             = ?init\<lparr>cr_message := ''Check error: '' @ str_exn (OtherError ''cannot resolve column email''),
                     cr_passed := False\<rparr>"
    by blast
  then have e1: "evaluate_check sample_actions people 3 ?email
       = \<lparr>cr_name = PStr ''not_null_email'', cr_type = PStr ''not_null'',
          cr_column = PStr ''email'', cr_passed = False, cr_failed_count = 0,
          cr_message = ''Check error: cannot resolve column email''\<rparr>"
    by simp
  from T [of _ _ _ "[?id, ?email, ?name]"] ok nn e1
  have 2: "\<exists>res. run_quality_checks sample_actions people [?id, ?email, ?name] False = Inr res
          \<and> res_passed res = 1 \<and> res_failed res = 2 \<and> length (res_checks res) = 3"
    by simp
  from T [of _ _ _ _ "[?id]" ?email] ok e1
  have "run_quality_checks sample_actions people ([?id] @ ?email # [?name]) True
       = Inl (ValidationError (''Quality check failed: ''
                @ str_of sample_actions (cr_name (evaluate_check sample_actions people 3 ?email))
                @ '' - '' @ cr_message (evaluate_check sample_actions people 3 ?email)))"
    by simp
  with e1 have 3: "run_quality_checks sample_actions people [?id, ?email, ?name] True
       = Inl (ValidationError
                ''Quality check failed: not_null_email - Check error: cannot resolve column email'')"
    by (simp add: sample_actions_def)
  from T [of _ _ _ "[?id]"] ok
  have 4: "\<exists>res. run_quality_checks sample_actions people [?id] True = Inr res
          \<and> res_passed res = 1 \<and> res_failed res = 0"
    by simp
  from c e1 2 3 4 show ?thesis by blast
qed

section \<open>The writer\<close>

lemma on_storage_target: "on_storage m s = (r, s') \<Longrightarrow> target_obj s' = target_obj s"
  by (auto simp: on_storage_def split: prod.splits)

lemma ensure_schema_target:
  "ensure_schema_exists P s = (r, s') \<Longrightarrow> target_obj s' = target_obj s"
  by (auto simp: ensure_schema_exists_def and_then_def get_target_def dest: on_storage_target)

lemma write_merge_no_keys:
  "merge_keys (target_obj s) = [] \<Longrightarrow>
   write_merge P df s = (Inl (DataWriterError ''Merge mode requires merge_keys in configuration''), s)"
  by (simp add: write_merge_def and_then_def get_target_def throw_def Let_def)

lemma writer_write_merge_no_keys:
  assumes "merge_keys (target_obj s) = []" and "lower (mode (target_obj s)) = ''merge''"
  shows "\<exists>msg. fst (writer_write P df s) = Inl (DataWriterError msg)"
proof (cases "ensure_schema_exists P s")
  case (Pair r s')
  then have t: "target_obj s' = target_obj s" by (rule ensure_schema_target)
  show ?thesis
  proof (cases r)
    case (Inl e)
    with Pair assms show ?thesis
      by (simp add: writer_write_def and_then_def get_target_def try_except_def throw_def Let_def)
  next
    case (Inr u)
    from t assms(1) have "write_merge P df s'
        = (Inl (DataWriterError ''Merge mode requires merge_keys in configuration''), s')"
      by (simp add: write_merge_no_keys)
    with Pair Inr assms show ?thesis
      by (simp add: writer_write_def and_then_def get_target_def try_except_def throw_def Let_def)
  qed
qed

lemma write_merge_bootstrap:
  assumes "merge_keys (target_obj s) \<noteq> []"
    and "table_exists P (catalog (target_obj s)) (schema (target_obj s)) (table (target_obj s))
           (storage s) = (Inr False, st)"
  shows "write_merge P df s = write_overwrite P df (s\<lparr>storage := st\<rparr>)"
  using assms
  by (simp add: write_merge_def and_then_def get_target_def on_storage_def Let_def)

lemma write_merge_upsert:
  assumes "merge_keys (target_obj s) \<noteq> []"
    and "table_exists P (catalog (target_obj s)) (schema (target_obj s)) (table (target_obj s))
           (storage s) = (Inr True, st)"
  shows "write_merge P df s =
     and_then (on_storage (sp_merge_execute P
                 \<lparr>mg_table = get_full_table_name (target_obj s),
                  mg_condition = join '' AND ''
                    (map (\<lambda>key. ''target.'' @ key @ '' = source.'' @ key) (merge_keys (target_obj s))),
                  mg_matched_update =
                    Some (None, source_dict (filter (\<lambda>c. c \<notin> set (merge_keys (target_obj s)))
                                               (sp_columns P df))),
                  mg_not_matched_insert = Some (source_dict (sp_columns P df))\<rparr> df))
       (\<lambda>_. on_storage (sp_count P df)) (s\<lparr>storage := st\<rparr>)"
  using assms
  by (simp add: write_merge_def and_then_def get_target_def on_storage_def key_condition_def Let_def)

lemma write_overwrite_returns:
  assumes "write_overwrite P df s = (Inr n, s')"
  shows "\<exists>st1 st2. sp_count P df (storage s) = (Inr n, st1)
     \<and> sp_saveAsTable P
          \<lparr>sv_format = format (target_obj s), sv_mode = ''overwrite'',
           sv_options = options (target_obj s),
           sv_partition_by = (if partition_by (target_obj s) \<noteq> []
                              then Some (partition_by (target_obj s)) else None),
           sv_table = get_full_table_name (target_obj s)\<rparr> df st1 = (Inr (), st2)
     \<and> optimize_table P (s\<lparr>storage := st2\<rparr>) = (Inr (), s')"
proof -
  obtain r1 st1 where c: "sp_count P df (storage s) = (r1, st1)" by (cases "sp_count P df (storage s)")
  let ?spec = "\<lparr>sv_format = format (target_obj s), sv_mode = ''overwrite'',
           sv_options = options (target_obj s),
           sv_partition_by = (if partition_by (target_obj s) \<noteq> []
                              then Some (partition_by (target_obj s)) else None),
           sv_table = get_full_table_name (target_obj s)\<rparr>"
  obtain r2 st2 where sv: "sp_saveAsTable P ?spec df st1 = (r2, st2)"
    by (cases "sp_saveAsTable P ?spec df st1")
  obtain r3 s3 where op: "optimize_table P (s\<lparr>storage := st2\<rparr>) = (r3, s3)"
    by (cases "optimize_table P (s\<lparr>storage := st2\<rparr>)")
  from assms c sv op have "r1 = Inr n \<and> r2 = Inr () \<and> r3 = Inr () \<and> s3 = s'"
    by (auto simp: write_overwrite_def and_then_def get_target_def on_storage_def ret_def Let_def
          split: sum.splits if_splits)
  with c sv op show ?thesis by auto
qed

lemma source_dict_fold:
  "map_of (foldl (\<lambda>d col. AList.update (PStr col) (SqlText (''source.'' @ col)) d) d0 cols) k =
     (if k \<in> PStr ` set cols then (case k of PStr c \<Rightarrow> Some (SqlText (''source.'' @ c)) | _ \<Rightarrow> None)
      else map_of d0 k)"
  by (induction cols arbitrary: d0) (auto simp: update_conv')

lemma source_dict_lookup:
  "map_of (source_dict cols) k =
     (if k \<in> PStr ` set cols then (case k of PStr c \<Rightarrow> Some (SqlText (''source.'' @ c)) | _ \<Rightarrow> None)
      else None)"
  unfolding source_dict_def source_dict_fold by simp

text \<open>
  C8. A merge with no merge keys raises the writer's error before anything is written,
  and \<open>write\<close> in merge mode then raises a \<open>DataWriterError\<close>. With merge keys and no
  target table, the merge is the overwrite of the source frame: when it returns, it
  returns the frame's row count and has saved the frame in mode \<open>overwrite\<close>. With
  merge keys and the table, it executes one Delta merge on the equality of all merge
  keys, whose update clause sets exactly the columns of the frame that are no merge key
  and whose insert clause sets all columns of the frame, each from the source.
\<close>

theorem merge_write:
  "(merge_keys (target_obj s) = [] \<longrightarrow>
      write_merge P df s
        = (Inl (DataWriterError ''Merge mode requires merge_keys in configuration''), s)
      \<and> (lower (mode (target_obj s)) = ''merge'' \<longrightarrow>
           (\<exists>msg. fst (writer_write P df s) = Inl (DataWriterError msg))))
   \<and> (merge_keys (target_obj s) \<noteq> []
       \<and> table_exists P (catalog (target_obj s)) (schema (target_obj s)) (table (target_obj s))
            (storage s) = (Inr False, st) \<longrightarrow>
      write_merge P df s = write_overwrite P df (s\<lparr>storage := st\<rparr>)
      \<and> (\<forall>n s'. write_merge P df s = (Inr n, s') \<longrightarrow>
            (\<exists>st1 st2. sp_count P df st = (Inr n, st1)
               \<and> sp_saveAsTable P
                    \<lparr>sv_format = format (target_obj s), sv_mode = ''overwrite'',
                     sv_options = options (target_obj s),
                     sv_partition_by = (if partition_by (target_obj s) \<noteq> []
                                        then Some (partition_by (target_obj s)) else None),
                     sv_table = get_full_table_name (target_obj s)\<rparr> df st1 = (Inr (), st2)
               \<and> optimize_table P (s\<lparr>storage := st2\<rparr>) = (Inr (), s'))))
   \<and> (merge_keys (target_obj s) \<noteq> []
       \<and> table_exists P (catalog (target_obj s)) (schema (target_obj s)) (table (target_obj s))
            (storage s) = (Inr True, st) \<longrightarrow>
      write_merge P df s =
        and_then (on_storage (sp_merge_execute P
                    \<lparr>mg_table = get_full_table_name (target_obj s),
                     mg_condition = join '' AND ''
                       (map (\<lambda>key. ''target.'' @ key @ '' = source.'' @ key)
                          (merge_keys (target_obj s))),
                     mg_matched_update =
                       Some (None, source_dict (filter (\<lambda>c. c \<notin> set (merge_keys (target_obj s)))
                                                  (sp_columns P df))),
                     mg_not_matched_insert = Some (source_dict (sp_columns P df))\<rparr> df))
          (\<lambda>_. on_storage (sp_count P df)) (s\<lparr>storage := st\<rparr>))
   \<and> map_of (source_dict cols) (PStr c)
       = (if c \<in> set cols then Some (SqlText (''source.'' @ c)) else None)
   \<and> (k \<notin> PStr ` set cols \<longrightarrow> map_of (source_dict cols) k = None)"
proof (intro conjI impI allI)
  fix n s'
  assume a: "merge_keys (target_obj s) \<noteq> []
       \<and> table_exists P (catalog (target_obj s)) (schema (target_obj s)) (table (target_obj s))
            (storage s) = (Inr False, st)"
    and r: "write_merge P df s = (Inr n, s')"
  from a have "write_merge P df s = write_overwrite P df (s\<lparr>storage := st\<rparr>)"
    by (simp add: write_merge_bootstrap)
  with r have "write_overwrite P df (s\<lparr>storage := st\<rparr>) = (Inr n, s')" by simp
  from write_overwrite_returns [OF this]
  show "\<exists>st1 st2. sp_count P df st = (Inr n, st1)
               \<and> sp_saveAsTable P
                    \<lparr>sv_format = format (target_obj s), sv_mode = ''overwrite'',
                     sv_options = options (target_obj s),
                     sv_partition_by = (if partition_by (target_obj s) \<noteq> []
                                        then Some (partition_by (target_obj s)) else None),
                     sv_table = get_full_table_name (target_obj s)\<rparr> df st1 = (Inr (), st2)
               \<and> optimize_table P (s\<lparr>storage := st2\<rparr>) = (Inr (), s')"
    by (simp split del: if_split cong: if_cong)
next
  show "map_of (source_dict cols) (PStr c)
       = (if c \<in> set cols then Some (SqlText (''source.'' @ c)) else None)"
    by (auto simp: source_dict_lookup)
qed (simp_all add: write_merge_no_keys writer_write_merge_no_keys write_merge_bootstrap
       write_merge_upsert source_dict_lookup)

theorem merge_write_witness:
  "write_merge sample_spark people
       \<lparr>target_obj = new_TargetConfig ''dim'' ''merge'' [], storage = []\<rparr>
     = (Inl (DataWriterError ''Merge mode requires merge_keys in configuration''),
        \<lparr>target_obj = new_TargetConfig ''dim'' ''merge'' [], storage = []\<rparr>)
   \<and> (\<exists>msg. fst (writer_write sample_spark people
                     \<lparr>target_obj = new_TargetConfig ''dim'' ''merge'' [], storage = []\<rparr>)
               = Inl (DataWriterError msg))
   \<and> write_merge sample_spark people
        \<lparr>target_obj = new_TargetConfig ''dim'' ''merge'' [''id''], storage = []\<rparr>
       = write_overwrite sample_spark people
           \<lparr>target_obj = new_TargetConfig ''dim'' ''merge'' [''id''], storage = []\<rparr>
   \<and> write_merge sample_spark people
        \<lparr>target_obj = new_TargetConfig ''dim'' ''merge'' [''id''], storage = []\<rparr>
       = (Inr 3, \<lparr>target_obj = new_TargetConfig ''dim'' ''merge'' [''id''],
                  storage = [''main.silver.dim'']\<rparr>)
   \<and> write_merge sample_spark people
        \<lparr>target_obj = new_TargetConfig ''dim'' ''merge'' [''id''],
         storage = [''main.silver.dim'']\<rparr>
       = (Inr 3, \<lparr>target_obj = new_TargetConfig ''dim'' ''merge'' [''id''],
                  storage = [''main.silver.dim'']\<rparr>)
   \<and> map_of (source_dict (filter (\<lambda>c. c \<notin> set [''id'']) (columns people))) (PStr ''name'')
       = Some (SqlText ''source.name'')
   \<and> map_of (source_dict (filter (\<lambda>c. c \<notin> set [''id'']) (columns people))) (PStr ''id'') = None"
proof -
  let ?tn = "new_TargetConfig ''dim'' ''merge'' []"
  let ?t = "new_TargetConfig ''dim'' ''merge'' [''id'']"
  let ?sa = "\<lparr>target_obj = ?tn, storage = ([] :: string list)\<rparr>"
  let ?sb = "\<lparr>target_obj = ?t, storage = ([] :: string list)\<rparr>"
  let ?sc = "\<lparr>target_obj = ?t, storage = [''main.silver.dim'']\<rparr>"
  note T = merge_write [of _ sample_spark people]
  have k0: "merge_keys (target_obj ?sa) = []" and k1: "merge_keys (target_obj ?sb) \<noteq> []"
    and k2: "merge_keys (target_obj ?sc) \<noteq> []"
    by (simp_all add: new_TargetConfig_def)
  have m0: "lower (mode (target_obj ?sa)) = ''merge''"
    by (simp add: new_TargetConfig_def lower_def lower_char_def)
  have e1: "table_exists sample_spark (catalog (target_obj ?sb)) (schema (target_obj ?sb))
              (table (target_obj ?sb)) (storage ?sb) = (Inr False, [])"
    and e2: "table_exists sample_spark (catalog (target_obj ?sc)) (schema (target_obj ?sc))
              (table (target_obj ?sc)) (storage ?sc) = (Inr True, [''main.silver.dim''])"
    by (simp_all add: table_exists_def try_except_def sample_spark_def new_TargetConfig_def)
  from T [of ?sa] k0 m0
  have 1: "write_merge sample_spark people ?sa
             = (Inl (DataWriterError ''Merge mode requires merge_keys in configuration''), ?sa)"
    and 2: "\<exists>msg. fst (writer_write sample_spark people ?sa) = Inl (DataWriterError msg)"
    by blast+
  from T [of ?sb "[]"] k1 e1
  have 3: "write_merge sample_spark people ?sb
             = write_overwrite sample_spark people (?sb\<lparr>storage := []\<rparr>)"
    by blast
  have 4: "write_overwrite sample_spark people ?sb = (Inr 3, ?sc)"
    by (simp add: write_overwrite_def optimize_table_def and_then_def get_target_def
          on_storage_def ret_def sample_spark_def new_TargetConfig_def people_def dict_get_def
          get_full_table_name_def Let_def)
  from T [of ?sc "[''main.silver.dim'']"] k2 e2
  have "write_merge sample_spark people ?sc =
        and_then (on_storage (sp_merge_execute sample_spark
                    \<lparr>mg_table = get_full_table_name (target_obj ?sc),
                     mg_condition = join '' AND ''
                       (map (\<lambda>key. ''target.'' @ key @ '' = source.'' @ key)
                          (merge_keys (target_obj ?sc))),
                     mg_matched_update =
                       Some (None, source_dict (filter (\<lambda>c. c \<notin> set (merge_keys (target_obj ?sc)))
                                                  (sp_columns sample_spark people))),
                     mg_not_matched_insert = Some (source_dict (sp_columns sample_spark people))\<rparr>
                    people))
          (\<lambda>_. on_storage (sp_count sample_spark people)) (?sc\<lparr>storage := [''main.silver.dim'']\<rparr>)"
    by blast
  then have 5: "write_merge sample_spark people ?sc = (Inr 3, ?sc)"
    by (simp add: and_then_def on_storage_def ret_def sample_spark_def new_TargetConfig_def
          people_def get_full_table_name_def)
  from T [of _ _ "filter (\<lambda>c. c \<notin> set [''id'']) (columns people)" "''name''"]
  have 6: "map_of (source_dict (filter (\<lambda>c. c \<notin> set [''id'']) (columns people))) (PStr ''name'')
       = Some (SqlText ''source.name'')"
    by (simp add: people_def)
  have "PStr ''id'' \<notin> PStr ` set (filter (\<lambda>c. c \<notin> set [''id'']) (columns people))"
    by (simp add: people_def)
  with T [of _ _ "filter (\<lambda>c. c \<notin> set [''id'']) (columns people)" _ "PStr ''id''"]
  have 7: "map_of (source_dict (filter (\<lambda>c. c \<notin> set [''id'']) (columns people))) (PStr ''id'') = None"
    by blast
  from 1 2 3 4 5 6 7 show ?thesis by simp
qed

lemma and_then_keeps:
  "keeps_target m \<Longrightarrow> (\<And>x. keeps_target (f x)) \<Longrightarrow> keeps_target (and_then m f)"
  unfolding keeps_target_def and_then_def
  by (auto split: prod.splits sum.splits)

lemma try_except_keeps:
  "keeps_target m \<Longrightarrow> (\<And>e. keeps_target (h e)) \<Longrightarrow> keeps_target (try_except m h)"
  unfolding keeps_target_def try_except_def
  by (auto split: prod.splits sum.splits)

lemma basic_keeps:
  "keeps_target (on_storage m)" "keeps_target get_target" "keeps_target (ret x)"
  "keeps_target (throw e)"
  by (auto simp: keeps_target_def on_storage_def get_target_def ret_def throw_def
        split: prod.splits)

lemma if_keeps: "keeps_target a \<Longrightarrow> keeps_target b \<Longrightarrow> keeps_target (if c then a else b)"
  by simp

lemma case_sum_keeps:
  "(\<And>e. keeps_target (f e)) \<Longrightarrow> (\<And>x. keeps_target (g x)) \<Longrightarrow>
   keeps_target (case v of Inl e \<Rightarrow> f e | Inr x \<Rightarrow> g x)"
  by (cases v) simp_all

lemma write_append_keeps: "keeps_target (write_append P df)"
  unfolding write_append_def Let_def
  by (intro and_then_keeps basic_keeps)

lemma optimize_table_keeps: "keeps_target (optimize_table P)"
  unfolding optimize_table_def Let_def
  by (intro and_then_keeps basic_keeps if_keeps case_sum_keeps)

lemma write_overwrite_keeps: "keeps_target (write_overwrite P df)"
  unfolding write_overwrite_def Let_def
  by (intro and_then_keeps basic_keeps optimize_table_keeps)

lemma write_merge_keeps: "keeps_target (write_merge P df)"
  unfolding write_merge_def Let_def
  by (intro and_then_keeps basic_keeps if_keeps write_overwrite_keeps)

lemma ensure_schema_keeps: "keeps_target (ensure_schema_exists P)"
  unfolding ensure_schema_exists_def
  by (intro and_then_keeps basic_keeps)

lemma get_target_and_then: "and_then get_target f s = f (target_obj s) s"
  by (simp add: and_then_def get_target_def)

lemma writer_write_keeps:
  assumes a: "lower (mode (target_obj s)) \<noteq> ''scd2''"
  shows "target_obj (snd (writer_write P df s)) = target_obj s"
proof -
  define m where "m = lower (mode (target_obj s))"
  let ?d = "if m = ''overwrite'' then write_overwrite P df
            else if m = ''append'' then write_append P df
            else if m = ''merge'' then write_merge P df
            else if m = ''scd2'' then write_scd2 P df
            else throw (DataWriterError (''Unknown write mode: '' @ m))"
  let ?h = "\<lambda>e. and_then get_target (\<lambda>target.
                    throw (DataWriterError (''Failed to write to '' @ get_full_table_name target
                             @ '': '' @ str_exn e)))"
  have ns: "m \<noteq> ''scd2''" unfolding m_def by (rule a)
  have d: "keeps_target ?d"
  proof (cases "m = ''overwrite''")
    case True
    then show ?thesis by (simp add: write_overwrite_keeps)
  next
    case no: False
    show ?thesis
    proof (cases "m = ''append''")
      case True
      with no show ?thesis by (simp add: write_append_keeps)
    next
      case na: False
      show ?thesis
      proof (cases "m = ''merge''")
        case True
        with no na show ?thesis by (simp add: write_merge_keeps)
      next
        case False
        with no na ns show ?thesis by (simp add: basic_keeps)
      qed
    qed
  qed
  have k: "keeps_target (try_except (and_then (ensure_schema_exists P) (\<lambda>_. ?d)) ?h)"
    by (intro try_except_keeps and_then_keeps ensure_schema_keeps basic_keeps d)
  have "writer_write P df s = try_except (and_then (ensure_schema_exists P) (\<lambda>_. ?d)) ?h s"
    unfolding writer_write_def get_target_and_then Let_def m_def ..
  with k show ?thesis
    by (cases "try_except (and_then (ensure_schema_exists P) (\<lambda>_. ?d)) ?h s")
       (simp add: keeps_target_def)
qed

text \<open>
  C4. In every mode but \<open>scd2\<close>, \<open>write\<close> leaves the \<open>TargetConfig\<close> as it was, whatever
  happens. In mode \<open>scd2\<close> against a table that does not exist yet it does not: the
  write returns the row count, and the caller's configuration now says \<open>overwrite\<close>.
\<close>

theorem write_target_config:
  "(lower (mode (target_obj s)) \<noteq> ''scd2'' \<longrightarrow>
      target_obj (snd (writer_write P df s)) = target_obj s)
   \<and> writer_write sample_spark people
        \<lparr>target_obj = new_TargetConfig ''dim'' ''scd2'' [''id''], storage = []\<rparr>
       = (Inr 3, \<lparr>target_obj = new_TargetConfig ''dim'' ''overwrite'' [''id''],
                  storage = [''main.silver.dim'']\<rparr>)"
proof (intro conjI impI)
  show "writer_write sample_spark people
        \<lparr>target_obj = new_TargetConfig ''dim'' ''scd2'' [''id''], storage = []\<rparr>
       = (Inr 3, \<lparr>target_obj = new_TargetConfig ''dim'' ''overwrite'' [''id''],
                  storage = [''main.silver.dim'']\<rparr>)"
    by (simp add: writer_write_def write_scd2_def write_overwrite_def optimize_table_def
          ensure_schema_exists_def create_schema_if_not_exists_def table_exists_def
          set_target_mode_def and_then_def try_except_def get_target_def on_storage_def
          ret_def sample_spark_def new_TargetConfig_def people_def dict_get_def
          get_full_table_name_def lower_def lower_char_def with_values_def Let_def)
qed (rule writer_write_keeps)

theorem write_target_config_witness:
  "lower (mode (new_TargetConfig ''dim'' ''merge'' [''id''])) \<noteq> ''scd2''
   \<and> target_obj (snd (writer_write sample_spark people
                         \<lparr>target_obj = new_TargetConfig ''dim'' ''merge'' [''id''], storage = []\<rparr>))
       = new_TargetConfig ''dim'' ''merge'' [''id'']"
proof -
  let ?s = "\<lparr>target_obj = new_TargetConfig ''dim'' ''merge'' [''id''], storage = ([] :: string list)\<rparr>"
  have m: "lower (mode (target_obj ?s)) \<noteq> ''scd2''"
    by (simp add: new_TargetConfig_def lower_def lower_char_def)
  with write_target_config [of ?s sample_spark people]
  have "target_obj (snd (writer_write sample_spark people ?s)) = target_obj ?s"
    by blast
  with m show ?thesis by simp
qed

section \<open>The pipeline run\<close>





section \<open>Deduplication\<close>





















section \<open>String standardisation\<close>














end
